theory Spec2Isabelle
  imports Main
begin

section \<open>The query helper of sqlalchemy\_query\_helper\<close>

text \<open>
  A shallow embedding of \<^verbatim>\<open>sqlalchemy_query_helper/query_helper.py\<close>: the functions
  \<^verbatim>\<open>query\<close>, \<^verbatim>\<open>query_limit\<close>, \<^verbatim>\<open>_query_sort\<close>, \<^verbatim>\<open>_convert_if_date\<close>,
  \<^verbatim>\<open>_apply_query_param\<close> and \<^verbatim>\<open>count\<close>. Isabelle names cannot start with an
  underscore, so the private functions drop it.

  Two collaborators are outside the repository. The date parser
  (\<^verbatim>\<open>dateutil.parser.parse\<close>) and the terminal \<^verbatim>\<open>Query.count()\<close> are parameters of the
  functions that call them. The query builder is modelled by what the module can observe
  of it: a query object is the session and model it was created for, and the calls made
  on it so far, in order.
\<close>

subsection \<open>Exceptions\<close>

datatype error =
    AttributeError
  | KeyError
  | TypeError
  | NotImplementedError string  \<comment> \<open>carries the ordering token the message is formatted from\<close>
  | ExternalError string        \<comment> \<open>raised inside the date parser or the data source\<close>

subsection \<open>Values\<close>

text \<open>
  The values a filter clause can carry: what a JSON document decodes to, and the native
  dates (\<open>'d\<close>, whatever the parser returns) that normalisation produces. A dictionary is
  an association list in insertion order, the order Python iterates it in.
\<close>

datatype 'd pyval =
    VNone
  | VBool bool
  | VInt int
  | VStr string
  | VList "'d pyval list"
  | VDict "(string \<times> 'd pyval) list"
  | VDate 'd

type_synonym 'd date_parser = "'d pyval \<Rightarrow> error + 'd"

subsection \<open>The query builder\<close>

text \<open>
  A model class is represented by the names of its mapped columns:
  \<^verbatim>\<open>getattr(model_cls, field)\<close> yields the column of that name and raises
  \<^verbatim>\<open>AttributeError\<close> for any other name.
\<close>

type_synonym model_cls = "string list"

definition getattr :: "model_cls \<Rightarrow> string \<Rightarrow> error + string" where
  "getattr model_cls field = (if field \<in> set model_cls then Inr field else Inl AttributeError)"

text \<open>
  The criteria that column operators build. \<open>Disj\<close> is the disjunction of two criteria
  (\<^verbatim>\<open>or_(a, b)\<close>, or \<^verbatim>\<open>(a) | (b)\<close> between two criteria).
\<close>

datatype 'd criterion =
    IsNull string                \<comment> \<open>\<^verbatim>\<open>column.is_(None)\<close>\<close>
  | Eq string "'d pyval"         \<comment> \<open>\<^verbatim>\<open>column == value\<close>\<close>
  | Ne string "'d pyval"         \<comment> \<open>\<^verbatim>\<open>column != value\<close>\<close>
  | Lt string "'d pyval"         \<comment> \<open>\<^verbatim>\<open>column < value\<close>\<close>
  | Gt string "'d pyval"         \<comment> \<open>\<^verbatim>\<open>column > value\<close>\<close>
  | NotIn string "'d pyval"      \<comment> \<open>\<^verbatim>\<open>column.notin_(value)\<close>\<close>
  | In string "'d pyval"         \<comment> \<open>\<^verbatim>\<open>column.in_(value)\<close>\<close>
  | Disj "'d criterion" "'d criterion"

datatype direction = Asc | Desc

datatype 'd qop =
    Filter "'d criterion"
  | OrderBy direction string
  | Offset int
  | Limit int

record ('s, 'd) query_obj =
  q_session :: 's
  q_entity :: model_cls
  q_ops :: "'d qop list"

text \<open>
  A variable holding a record set holds a query object or Python's \<^verbatim>\<open>None\<close>.
\<close>

type_synonym ('s, 'd) record_set = "('s, 'd) query_obj option"

text \<open>\<^verbatim>\<open>session_obj.query(model_cls)\<close>: a fresh query with no call made on it.\<close>

definition session_query :: "'s \<Rightarrow> model_cls \<Rightarrow> ('s, 'd) query_obj" where
  "session_query session_obj model_cls =
     \<lparr>q_session = session_obj, q_entity = model_cls, q_ops = []\<rparr>"

text \<open>
  The builder's methods are generative: each returns a new query object that carries one
  more call and leaves the object it was called on as it was.
\<close>

definition filter_q :: "('s, 'd) query_obj \<Rightarrow> 'd criterion \<Rightarrow> ('s, 'd) query_obj" where
  "filter_q q c = q\<lparr>q_ops := q_ops q @ [Filter c]\<rparr>"

definition order_by :: "('s, 'd) query_obj \<Rightarrow> direction \<Rightarrow> string \<Rightarrow> ('s, 'd) query_obj" where
  "order_by q d column = q\<lparr>q_ops := q_ops q @ [OrderBy d column]\<rparr>"

definition offset_q :: "('s, 'd) query_obj \<Rightarrow> int \<Rightarrow> ('s, 'd) query_obj" where
  "offset_q q n = q\<lparr>q_ops := q_ops q @ [Offset n]\<rparr>"

definition limit_q :: "('s, 'd) query_obj \<Rightarrow> int \<Rightarrow> ('s, 'd) query_obj" where
  "limit_q q n = q\<lparr>q_ops := q_ops q @ [Limit n]\<rparr>"

text \<open>
  Looking a method up on a record set: \<^verbatim>\<open>None\<close> has none of the builder's methods.
\<close>

definition method_of :: "('s, 'd) record_set \<Rightarrow> error + ('s, 'd) query_obj" where
  "method_of record_set = (case record_set of None \<Rightarrow> Inl AttributeError | Some q \<Rightarrow> Inr q)"

subsection \<open>\<^verbatim>\<open>_convert_if_date\<close>\<close>

text \<open>
  The list comprehension \<^verbatim>\<open>[parse_date(date_val) for date_val in value["$date"]]\<close>:
  the elements are parsed in order and the first failure is raised.
\<close>

fun parse_each :: "'d date_parser \<Rightarrow> 'd pyval list \<Rightarrow> error + 'd pyval list" where
  "parse_each parse_date [] = Inr []"
| "parse_each parse_date (date_val # rest) =
     (case parse_date date_val of
        Inl e \<Rightarrow> Inl e
      | Inr d \<Rightarrow>
          (case parse_each parse_date rest of
             Inl e \<Rightarrow> Inl e
           | Inr ds \<Rightarrow> Inr (VDate d # ds)))"

text \<open>
  The two capability tests. Among the values above only a dictionary has \<^verbatim>\<open>items\<close> and
  \<^verbatim>\<open>fromkeys\<close>, and only a list has \<^verbatim>\<open>append\<close> and \<^verbatim>\<open>clear\<close>.
\<close>

definition dict_like :: "'d pyval \<Rightarrow> bool" where
  "dict_like v = (case v of VDict items \<Rightarrow> True | _ \<Rightarrow> False)"

definition list_like :: "'d pyval \<Rightarrow> bool" where
  "list_like v = (case v of VList elements \<Rightarrow> True | _ \<Rightarrow> False)"

text \<open>\<^verbatim>\<open>value[key]\<close> on a dictionary raises \<^verbatim>\<open>KeyError\<close> when the key is absent.\<close>

definition subscript :: "'d pyval \<Rightarrow> string \<Rightarrow> error + 'd pyval" where
  "subscript v key =
     (case v of
        VDict items \<Rightarrow> (case map_of items key of None \<Rightarrow> Inl KeyError | Some x \<Rightarrow> Inr x)
      | _ \<Rightarrow> Inl TypeError)"

definition elements_of :: "'d pyval \<Rightarrow> 'd pyval list" where
  "elements_of v = (case v of VList elements \<Rightarrow> elements | _ \<Rightarrow> [])"

definition convert_if_date :: "'d date_parser \<Rightarrow> 'd pyval \<Rightarrow> error + 'd pyval" where
  "convert_if_date parse_date v =
     (if dict_like v then
        (case subscript v ''$date'' of
           Inl e \<Rightarrow> Inl e
         | Inr tagged \<Rightarrow>
             if list_like tagged then
               (case parse_each parse_date (elements_of tagged) of
                  Inl e \<Rightarrow> Inl e
                | Inr ds \<Rightarrow> Inr (VList ds))
             else
               (case parse_date tagged of
                  Inl e \<Rightarrow> Inl e
                | Inr d \<Rightarrow> Inr (VDate d)))
      else Inr v)"

subsection \<open>\<^verbatim>\<open>_apply_query_param\<close>\<close>

text \<open>
  \<^verbatim>\<open>record_set.filter(<column op value>)\<close>: the method is looked up first, then the
  argument is evaluated, then the call is made.
\<close>

definition filter_call ::
  "('s, 'd) record_set \<Rightarrow> model_cls \<Rightarrow> string \<Rightarrow> (string \<Rightarrow> 'd criterion)
     \<Rightarrow> error + ('s, 'd) record_set" where
  "filter_call record_set model_cls field mk =
     (case method_of record_set of
        Inl e \<Rightarrow> Inl e
      | Inr q \<Rightarrow>
          (case getattr model_cls field of
             Inl e \<Rightarrow> Inl e
           | Inr column \<Rightarrow> Inr (Some (filter_q q (mk column)))))"

text \<open>
  \<^verbatim>\<open>operator_value | getattr(model_cls, field)\<close>, a plain value on the left and a column
  on the right. None of the value types accepts a column in its \<^verbatim>\<open>__or__\<close> and a column
  has no reflected \<^verbatim>\<open>__ror__\<close>, so the operation raises \<^verbatim>\<open>TypeError\<close>; the function
  yields the exception raised.
\<close>

definition value_or_column :: "'d pyval \<Rightarrow> string \<Rightarrow> error" where
  "value_or_column operator_value column = TypeError"

text \<open>
  The argument of the \<^verbatim>\<open>$lte\<close> and \<^verbatim>\<open>$gte\<close> branches,
  \<^verbatim>\<open>getattr(model_cls, field) < operator_value | getattr(model_cls, field) == operator_value\<close>
  (with \<^verbatim>\<open>>\<close> for \<^verbatim>\<open>$gte\<close>). In Python \<^verbatim>\<open>|\<close> binds tighter than the comparisons, so
  this is the chain \<^verbatim>\<open>column < (operator_value | column) == operator_value\<close>: after the
  method lookup, the left column is read, then the right one, then \<^verbatim>\<open>|\<close> is applied to
  the value and the right column, which raises before any comparison is built. The strict
  comparison does not matter to the outcome, so both branches share this function.
\<close>

definition inclusive_call ::
  "('s, 'd) record_set \<Rightarrow> model_cls \<Rightarrow> string \<Rightarrow> 'd pyval \<Rightarrow> error + ('s, 'd) record_set" where
  "inclusive_call record_set model_cls field operator_value =
     (case method_of record_set of
        Inl e \<Rightarrow> Inl e
      | Inr q \<Rightarrow>
          (case getattr model_cls field of
             Inl e \<Rightarrow> Inl e
           | Inr left_column \<Rightarrow>
               (case getattr model_cls field of
                  Inl e \<Rightarrow> Inl e
                | Inr right_column \<Rightarrow> Inl (value_or_column operator_value right_column))))"

text \<open>
  The two nested loops return from inside the first branch that matches. \<open>Return r\<close> is
  a \<^verbatim>\<open>return\<close> executed inside a loop, \<open>Fallthrough\<close> a loop that ran to its end.
\<close>

datatype 'a flow = Return 'a | Fallthrough

type_synonym 'd operators = "(string \<times> 'd pyval) list"
type_synonym 'd clause = "(string \<times> 'd operators) list"

fun apply_operators ::
  "'d date_parser \<Rightarrow> model_cls \<Rightarrow> ('s, 'd) record_set \<Rightarrow> string \<Rightarrow> 'd operators
     \<Rightarrow> error + ('s, 'd) record_set flow" where
  "apply_operators parse_date model_cls record_set field [] = Inr Fallthrough"
| "apply_operators parse_date model_cls record_set field ((operator, raw) # rest) =
     (case convert_if_date parse_date raw of
        Inl e \<Rightarrow> Inl e
      | Inr operator_value \<Rightarrow>
          if operator = ''$eq'' then
            (if operator_value = VNone
             then map_sum id Return (filter_call record_set model_cls field IsNull)
             else map_sum id Return
                    (filter_call record_set model_cls field (\<lambda>c. Eq c operator_value)))
          else if operator = ''$ne'' then
            map_sum id Return (filter_call record_set model_cls field (\<lambda>c. Ne c operator_value))
          else if operator = ''$lt'' then
            map_sum id Return (filter_call record_set model_cls field (\<lambda>c. Lt c operator_value))
          else if operator = ''$lte'' then
            map_sum id Return (inclusive_call record_set model_cls field operator_value)
          else if operator = ''$gt'' then
            map_sum id Return (filter_call record_set model_cls field (\<lambda>c. Gt c operator_value))
          else if operator = ''$gte'' then
            map_sum id Return (inclusive_call record_set model_cls field operator_value)
          else if operator = ''$nin'' then
            map_sum id Return
              (filter_call record_set model_cls field (\<lambda>c. NotIn c operator_value))
          else if operator = ''$in'' then
            map_sum id Return (filter_call record_set model_cls field (\<lambda>c. In c operator_value))
          else apply_operators parse_date model_cls record_set field rest)"

fun apply_fields ::
  "'d date_parser \<Rightarrow> model_cls \<Rightarrow> ('s, 'd) record_set \<Rightarrow> 'd clause
     \<Rightarrow> error + ('s, 'd) record_set flow" where
  "apply_fields parse_date model_cls record_set [] = Inr Fallthrough"
| "apply_fields parse_date model_cls record_set ((field, operators) # rest) =
     (case apply_operators parse_date model_cls record_set field operators of
        Inl e \<Rightarrow> Inl e
      | Inr (Return r) \<Rightarrow> Inr (Return r)
      | Inr Fallthrough \<Rightarrow> apply_fields parse_date model_cls record_set rest)"

text \<open>A function whose loops run to their end returns \<^verbatim>\<open>None\<close>.\<close>

definition apply_query_param ::
  "'d date_parser \<Rightarrow> model_cls \<Rightarrow> ('s, 'd) record_set \<Rightarrow> 'd clause
     \<Rightarrow> error + ('s, 'd) record_set" where
  "apply_query_param parse_date model_cls record_set params =
     (case apply_fields parse_date model_cls record_set params of
        Inl e \<Rightarrow> Inl e
      | Inr (Return r) \<Rightarrow> Inr r
      | Inr Fallthrough \<Rightarrow> Inr None)"

subsection \<open>\<^verbatim>\<open>_query_sort\<close>\<close>

text \<open>
  \<^verbatim>\<open>str(ordering).upper()\<close> on an ASCII token: the letters a to z (codes 97 to 122) move
  down by 32, every other character stays.
\<close>

definition upper_char :: "char \<Rightarrow> char" where
  "upper_char c =
     (let n = (of_char c :: nat) in if 97 \<le> n \<and> n \<le> 122 then char_of (n - 32) else c)"

definition upper :: "string \<Rightarrow> string" where
  "upper s = map upper_char s"

definition order_func :: "string \<Rightarrow> error + direction" where
  "order_func ordering' =
     (if upper ordering' = ''ASC'' then Inr Asc
      else if upper ordering' = ''DESC'' then Inr Desc
      else Inl (NotImplementedError ordering'))"

text \<open>
  The value of the expression statement
  \<^verbatim>\<open>record_set.order_by(order_func(getattr(model_cls, field)))\<close>.
\<close>

definition order_by_call ::
  "('s, 'd) record_set \<Rightarrow> model_cls \<Rightarrow> direction \<Rightarrow> string \<Rightarrow> error + ('s, 'd) query_obj" where
  "order_by_call record_set model_cls d field =
     (case method_of record_set of
        Inl e \<Rightarrow> Inl e
      | Inr q \<Rightarrow>
          (case getattr model_cls field of
             Inl e \<Rightarrow> Inl e
           | Inr column \<Rightarrow> Inr (order_by q d column)))"

text \<open>
  The inner loop over the pairs of one group. The statement above is not an assignment:
  its value is dropped and \<^verbatim>\<open>record_set\<close> stays bound to the same object.
\<close>

type_synonym sort_group = "(string \<times> string) list"

fun sort_pairs ::
  "model_cls \<Rightarrow> ('s, 'd) record_set \<Rightarrow> sort_group \<Rightarrow> error + ('s, 'd) record_set" where
  "sort_pairs model_cls record_set [] = Inr record_set"
| "sort_pairs model_cls record_set ((field, ordering') # rest) =
     (case order_func ordering' of
        Inl e \<Rightarrow> Inl e
      | Inr d \<Rightarrow>
          (case order_by_call record_set model_cls d field of
             Inl e \<Rightarrow> Inl e
           | Inr dropped \<Rightarrow> sort_pairs model_cls record_set rest))"

fun query_sort ::
  "model_cls \<Rightarrow> ('s, 'd) record_set \<Rightarrow> sort_group list \<Rightarrow> error + ('s, 'd) record_set" where
  "query_sort model_cls record_set [] = Inr record_set"
| "query_sort model_cls record_set (sort_param # rest) =
     (case sort_pairs model_cls record_set sort_param of
        Inl e \<Rightarrow> Inl e
      | Inr unchanged \<Rightarrow> query_sort model_cls record_set rest)"

subsection \<open>\<^verbatim>\<open>query_limit\<close>\<close>

text \<open>
  The pagination dictionary, by the three keys the module reads. A field is \<open>None\<close> when
  the key is absent; \<^verbatim>\<open>offset\<close> and \<^verbatim>\<open>limit\<close> are integers. The empty dictionary has
  no key.
\<close>

record pagination =
  offset_arg :: "int option"
  limit_arg :: "int option"
  sort_arg :: "sort_group list option"

definition empty_dict :: pagination where
  "empty_dict = \<lparr>offset_arg = None, limit_arg = None, sort_arg = None\<rparr>"

text \<open>
  \<^verbatim>\<open>pagination_args if pagination_args else {}\<close>: \<^verbatim>\<open>None\<close> and the empty dictionary
  are both falsy and both become the empty dictionary.
\<close>

definition or_empty :: "pagination option \<Rightarrow> pagination" where
  "or_empty pagination_args = (case pagination_args of None \<Rightarrow> empty_dict | Some p \<Rightarrow> p)"

text \<open>\<^verbatim>\<open>d.get(key, 0)\<close>.\<close>

definition get0 :: "int option \<Rightarrow> int" where
  "get0 entry = (case entry of None \<Rightarrow> 0 | Some n \<Rightarrow> n)"

definition query_limit ::
  "('s, 'd) record_set \<Rightarrow> pagination option \<Rightarrow> error + ('s, 'd) record_set" where
  "query_limit record_set pagination_args =
     (let args = or_empty pagination_args in
      case (if 0 < get0 (offset_arg args)
            then map_sum id (\<lambda>q. Some (offset_q q (get0 (offset_arg args))))
                   (method_of record_set)
            else Inr record_set) of
        Inl e \<Rightarrow> Inl e
      | Inr record_set1 \<Rightarrow>
          if 0 < get0 (limit_arg args)
          then map_sum id (\<lambda>q. Some (limit_q q (get0 (limit_arg args))))
                 (method_of record_set1)
          else Inr record_set1)"

subsection \<open>\<^verbatim>\<open>query\<close>\<close>

text \<open>The loop \<^verbatim>\<open>for param in params: record_set = _apply_query_param(...)\<close>.\<close>

fun apply_params ::
  "'d date_parser \<Rightarrow> model_cls \<Rightarrow> ('s, 'd) record_set \<Rightarrow> 'd clause list
     \<Rightarrow> error + ('s, 'd) record_set" where
  "apply_params parse_date model_cls record_set [] = Inr record_set"
| "apply_params parse_date model_cls record_set (param # rest) =
     (case apply_query_param parse_date model_cls record_set param of
        Inl e \<Rightarrow> Inl e
      | Inr record_set1 \<Rightarrow> apply_params parse_date model_cls record_set1 rest)"

text \<open>
  \<^verbatim>\<open>params if params else []\<close>: \<^verbatim>\<open>None\<close> and the empty list both become the empty list.
\<close>

definition or_nil :: "'a list option \<Rightarrow> 'a list" where
  "or_nil params = (case params of None \<Rightarrow> [] | Some ps \<Rightarrow> ps)"

definition query ::
  "'d date_parser \<Rightarrow> 's \<Rightarrow> model_cls \<Rightarrow> 'd clause list option \<Rightarrow> pagination option
     \<Rightarrow> error + ('s, 'd) record_set" where
  "query parse_date session_obj model_cls params pagination_args =
     (let params1 = or_nil params;
          args = or_empty pagination_args;
          record_set = Some (session_query session_obj model_cls)
      in case apply_params parse_date model_cls record_set params1 of
           Inl e \<Rightarrow> Inl e
         | Inr record_set1 \<Rightarrow>
             (case query_sort model_cls record_set1 (or_nil (sort_arg args)) of
                Inl e \<Rightarrow> Inl e
              | Inr record_set2 \<Rightarrow> query_limit record_set2 (Some args)))"

subsection \<open>\<^verbatim>\<open>count\<close>\<close>

text \<open>
  \<^verbatim>\<open>if result:\<close> is false for \<^verbatim>\<open>None\<close> and true for a query object, which defines
  neither \<^verbatim>\<open>__bool__\<close> nor \<^verbatim>\<open>__len__\<close>. \<open>run_count\<close> is \<^verbatim>\<open>Query.count()\<close>, the round
  trip to the data source. The result dictionary is the list of its items.
\<close>

definition count ::
  "'d date_parser \<Rightarrow> (('s, 'd) query_obj \<Rightarrow> error + int) \<Rightarrow> 's \<Rightarrow> model_cls
     \<Rightarrow> 'd clause list option \<Rightarrow> error + (string \<times> int) list" where
  "count parse_date run_count session_obj model_cls params =
     (case query parse_date session_obj model_cls params (Some empty_dict) of
        Inl e \<Rightarrow> Inl e
      | Inr result \<Rightarrow>
          (case result of
             None \<Rightarrow> Inr [(''count'', 0)]
           | Some q \<Rightarrow>
               (case run_count q of
                  Inl e \<Rightarrow> Inl e
                | Inr count1 \<Rightarrow> Inr [(''count'', count1)])))"

subsection \<open>Example inputs\<close>

text \<open>
  A stand-in for the date parser, used where a theorem is evaluated on concrete input: it
  accepts every string and returns its length as the native date.
\<close>

definition demo_parser :: "nat date_parser" where
  "demo_parser v = (case v of VStr s \<Rightarrow> Inr (length s) | _ \<Rightarrow> Inl TypeError)"

definition demo_query :: "(nat, nat) query_obj" where
  "demo_query = session_query 0 [''age'', ''name'']"

section \<open>Properties\<close>

subsection \<open>Auxiliary facts\<close>

lemmas builder_defs = filter_call_def inclusive_call_def order_by_call_def method_of_def
  getattr_def value_or_column_def

lemmas convert_defs = convert_if_date_def dict_like_def list_like_def subscript_def
  elements_of_def

lemmas query_defs = query_def or_nil_def or_empty_def empty_dict_def apply_query_param_def
  query_limit_def get0_def

lemma upper_ASC: "upper ''ASC'' = ''ASC''"
  by code_simp

lemma upper_asc: "upper ''asc'' = ''ASC''"
  by code_simp

lemma upper_DESC: "upper ''DESC'' = ''DESC''"
  by code_simp

lemma upper_Desc: "upper ''Desc'' = ''DESC''"
  by code_simp

lemma upper_desc: "upper ''desc'' = ''DESC''"
  by code_simp

lemma upper_UP: "upper ''UP'' = ''UP''"
  by code_simp

lemma convert_if_date_plain: "\<not> dict_like v \<Longrightarrow> convert_if_date parse_date v = Inr v"
  by (simp add: convert_if_date_def)

lemma convert_if_date_None: "convert_if_date parse_date VNone = Inr VNone"
  by (simp add: convert_defs)

lemma convert_if_date_not_None:
  "convert_if_date parse_date raw = Inr v \<Longrightarrow> raw \<noteq> VNone \<Longrightarrow> v \<noteq> VNone"
  by (auto simp: convert_defs split: pyval.splits option.splits sum.splits if_splits)

lemma parse_each_all:
  "list_all2 (\<lambda>x d. parse_date x = Inr d) xs ds \<Longrightarrow>
   parse_each parse_date xs = Inr (map VDate ds)"
  by (induction xs ds rule: list_all2_induct) simp_all

lemma filter_call_Some:
  "field \<in> set model_cls \<Longrightarrow>
   filter_call (Some q) model_cls field mk = Inr (Some (filter_q q (mk field)))"
  by (simp add: builder_defs)

lemma filter_call_shape:
  "filter_call (Some q) model_cls field mk = Inr r \<Longrightarrow> \<exists>c. r = Some (filter_q q c)"
  by (auto simp: builder_defs split: if_splits)

lemma inclusive_call_fails: "inclusive_call record_set model_cls field v \<noteq> Inr r"
  by (simp add: builder_defs split: option.splits)

lemma map_sum_Return_neq: "map_sum id Return x \<noteq> Inr Fallthrough"
  by (cases x) auto

lemma apply_operators_append:
  "apply_operators parse_date model_cls record_set field xs = Inr Fallthrough \<Longrightarrow>
   apply_operators parse_date model_cls record_set field (xs @ ys) =
   apply_operators parse_date model_cls record_set field ys"
  by (induction xs) (auto simp: map_sum_Return_neq split: sum.splits if_splits)

lemma apply_fields_append:
  "apply_fields parse_date model_cls record_set xs = Inr Fallthrough \<Longrightarrow>
   apply_fields parse_date model_cls record_set (xs @ ys) =
   apply_fields parse_date model_cls record_set ys"
  by (induction xs) (auto split: sum.splits flow.splits)

lemma apply_operators_eq:
  assumes "field \<in> set model_cls" and "convert_if_date parse_date raw = Inr v"
  shows "apply_operators parse_date model_cls (Some q) field ((''$eq'', raw) # rest) =
         Inr (Return (Some (filter_q q (if v = VNone then IsNull field else Eq field v))))"
  using assms by (simp add: filter_call_Some)

lemma map_sum_Return_shape:
  "map_sum id Return x = Inr (Return r) \<Longrightarrow> x = Inr r"
  by (cases x) auto

lemma sort_pairs_unchanged:
  "sort_pairs model_cls record_set pairs = Inr r \<Longrightarrow> r = record_set"
  by (induction pairs) (auto split: sum.splits)

lemma query_sort_unchanged:
  "query_sort model_cls record_set groups = Inr r \<Longrightarrow> r = record_set"
  by (induction groups) (auto split: sum.splits)

lemma sort_pairs_append:
  "sort_pairs model_cls record_set (xs @ ys) =
     (case sort_pairs model_cls record_set xs of
        Inl e \<Rightarrow> Inl e
      | Inr r \<Rightarrow> sort_pairs model_cls record_set ys)"
  by (induction xs) (auto split: sum.splits)

lemma query_sort_append:
  "query_sort model_cls record_set (xs @ ys) =
     (case query_sort model_cls record_set xs of
        Inl e \<Rightarrow> Inl e
      | Inr r \<Rightarrow> query_sort model_cls record_set ys)"
  by (induction xs) (auto split: sum.splits)

lemma order_func_invalid:
  "upper ordering' \<noteq> ''ASC'' \<Longrightarrow> upper ordering' \<noteq> ''DESC'' \<Longrightarrow>
   order_func ordering' = Inl (NotImplementedError ordering')"
  by (simp add: order_func_def)

lemma apply_operators_shape:
  "apply_operators parse_date model_cls (Some q) field operators = Inr (Return r) \<Longrightarrow>
   \<exists>c. r = Some (filter_q q c)"
proof (induction operators)
  case Nil
  then show ?case by simp
next
  case (Cons pair operators)
  obtain operator raw where pair: "pair = (operator, raw)" by (cases pair)
  from Cons.prems pair obtain v where v: "convert_if_date parse_date raw = Inr v"
    by (auto split: sum.splits)
  show ?case
    using Cons.prems Cons.IH unfolding pair
    by (simp add: v inclusive_call_fails split: if_splits)
       (auto dest!: map_sum_Return_shape filter_call_shape simp: inclusive_call_fails)
qed

lemma apply_fields_shape:
  "apply_fields parse_date model_cls (Some q) params = Inr (Return r) \<Longrightarrow>
   \<exists>c. r = Some (filter_q q c)"
  by (induction params) (auto split: sum.splits flow.splits dest: apply_operators_shape)

subsection \<open>Filter clauses\<close>

text \<open>
  Claim C1: every clause of the sequence, every field of a clause and every operator and
  value under a field contributes exactly one predicate to the accumulator that
  \<^verbatim>\<open>query\<close> returns. The loops of \<^verbatim>\<open>_apply_query_param\<close> return from inside the first
  branch that matches, so a clause contributes the predicate of its first known pair only.
  At the clause \<^verbatim>\<open>{"age": {"$gt": 1, "$lt": 5}}\<close> the returned accumulator carries
  \<^verbatim>\<open>age > 1\<close> and nothing for \<^verbatim>\<open>$lt\<close>.
\<close>

theorem query_keeps_first_pair_only:
  "query parse_date session_obj [''age'']
     (Some [[(''age'', [(''$gt'', VInt 1), (''$lt'', VInt 5)])]]) None
   = Inr (Some (filter_q (session_query session_obj [''age'']) (Gt ''age'' (VInt 1))))"
  by (simp add: query_defs convert_defs builder_defs)

text \<open>
  Claim C2: the predicate attached for \<^verbatim>\<open>$gte\<close> is the disjunction of the strict
  greater-than comparison and the equality comparison on the field, likewise for
  \<^verbatim>\<open>$lte\<close>, and a field equal to the value satisfies it. The source writes the two
  comparisons with \<^verbatim>\<open>|\<close> between them and no parentheses; \<^verbatim>\<open>|\<close> is applied first, to the
  value and the column, and raises. At \<^verbatim>\<open>{"age": {"$gte": 30}}\<close> and at
  \<^verbatim>\<open>{"age": {"$lte": 30}}\<close> the call fails with \<^verbatim>\<open>TypeError\<close> and attaches nothing, where
  the claim has the accumulator extended by the disjunction.
\<close>

theorem inclusive_bound_raises:
  "apply_query_param parse_date [''age''] (Some q) [(''age'', [(''$gte'', VInt 30)])]
     = Inl TypeError
   \<and> apply_query_param parse_date [''age''] (Some q) [(''age'', [(''$lte'', VInt 30)])]
     = Inl TypeError
   \<and> apply_query_param parse_date [''age''] (Some q) [(''age'', [(''$gte'', VInt 30)])]
     \<noteq> Inr (Some (filter_q q (Disj (Gt ''age'' (VInt 30)) (Eq ''age'' (VInt 30)))))"
  by (simp add: query_defs convert_defs builder_defs)

text \<open>
  Claim C3: an operator outside the supported set is ignored, no predicate is attached for
  it, no error is raised and the accumulator is still returned. A clause whose operators
  are all unknown runs both loops to their end, and the function then returns \<^verbatim>\<open>None\<close>
  in place of the accumulator. At \<^verbatim>\<open>{"age": {"$regex": "x"}}\<close> the function and
  \<^verbatim>\<open>query\<close> return \<^verbatim>\<open>None\<close>, and a following clause \<^verbatim>\<open>{"age": {"$gt": 1}}\<close> fails with
  \<^verbatim>\<open>AttributeError\<close> on that \<^verbatim>\<open>None\<close>.
\<close>

theorem unsupported_operator_returns_None:
  "apply_query_param parse_date [''age''] (Some q) [(''age'', [(''$regex'', VStr ''x'')])]
     = Inr None
   \<and> query parse_date session_obj [''age'']
       (Some [[(''age'', [(''$regex'', VStr ''x'')])]]) None = Inr None
   \<and> query parse_date session_obj [''age'']
       (Some [[(''age'', [(''$regex'', VStr ''x'')])], [(''age'', [(''$gt'', VInt 1)])]]) None
     = Inl AttributeError"
  by (simp add: query_defs convert_defs builder_defs)

subsection \<open>Sorting\<close>

text \<open>
  Claim C4: for sort directives whose directions are all valid, the sort operation returns
  an accumulator with an ascending or descending order clause attached for each pair, in
  the given order. The source calls \<^verbatim>\<open>order_by\<close> and drops the query it returns, so the
  accumulator comes back with no order clause. At the directive
  \<^verbatim>\<open>[[("age", "DESC")]]\<close> both \<^verbatim>\<open>_query_sort\<close> and \<^verbatim>\<open>query\<close> return the accumulator
  they started from.
\<close>

theorem sort_is_dropped:
  "query_sort [''age''] (Some q) [[(''age'', ''DESC'')]] = Inr (Some q)
   \<and> query parse_date session_obj [''age''] None
       (Some \<lparr>offset_arg = None, limit_arg = None, sort_arg = Some [[(''age'', ''DESC'')]]\<rparr>)
     = Inr (Some (session_query session_obj [''age'']))"
  by (simp add: query_defs order_func_def upper_DESC builder_defs)

subsection \<open>Equality with null\<close>

text \<open>
  Claim C5: for every clause that uses the equals operator with a null value the attached
  predicate is an explicit is-null test on the field, and for a value that is not null it
  is ordinary equality. The \<^verbatim>\<open>$eq\<close> branch builds exactly these predicates, but
  \<^verbatim>\<open>_apply_query_param\<close> returns from inside the first branch that matches, so an
  \<^verbatim>\<open>$eq\<close> pair that comes after another known pair is never looked at. At the clause
  \<^verbatim>\<open>{"age": {"$gt": 1, "$eq": None}}\<close> the function and \<^verbatim>\<open>query\<close> attach \<^verbatim>\<open>age > 1\<close>
  and no is-null test; at \<^verbatim>\<open>{"name": {"$ne": "x"}, "age": {"$eq": None}}\<close> only the
  predicate on \<^verbatim>\<open>name\<close> is attached.
\<close>

theorem eq_null_pair_dropped:
  "apply_query_param parse_date [''age''] (Some q) [(''age'', [(''$gt'', VInt 1), (''$eq'', VNone)])]
     = Inr (Some (filter_q q (Gt ''age'' (VInt 1))))
   \<and> apply_query_param parse_date [''age'', ''name''] (Some q)
       [(''name'', [(''$ne'', VStr ''x'')]), (''age'', [(''$eq'', VNone)])]
     = Inr (Some (filter_q q (Ne ''name'' (VStr ''x''))))
   \<and> query parse_date session_obj [''age'']
       (Some [[(''age'', [(''$gt'', VInt 1), (''$eq'', VNone)])]]) None
     = Inr (Some (filter_q (session_query session_obj [''age'']) (Gt ''age'' (VInt 1))))
   \<and> Filter (IsNull ''age'')
       \<notin> set (q_ops (filter_q (session_query session_obj [''age'']) (Gt ''age'' (VInt 1))))"
  by (simp add: query_defs convert_defs builder_defs filter_q_def session_query_def)

subsection \<open>Ordering tokens\<close>

text \<open>
  Claim C6: the direction token of a sort directive is matched against ASC and DESC
  without regard to case, and a token that is neither makes the sort operation fail at
  once with the unsupported-ordering error instead of returning an accumulator. The token
  is compared after upper-casing. When the loops reach a pair with such a token (the
  groups before it and the pairs before it in its group went through), the operation
  raises \<^verbatim>\<open>NotImplementedError\<close> for that token, whatever the field, the accumulator and
  the directives after it.
\<close>

theorem query_sort_ordering_token:
  "(upper ordering' = ''ASC'' \<longrightarrow> order_func ordering' = Inr Asc) \<and>
   (upper ordering' = ''DESC'' \<longrightarrow> order_func ordering' = Inr Desc) \<and>
   (upper ordering' \<noteq> ''ASC'' \<and> upper ordering' \<noteq> ''DESC'' \<longrightarrow>
      query_sort model_cls record_set groups_before = Inr r1 \<longrightarrow>
      sort_pairs model_cls record_set pairs_before = Inr r2 \<longrightarrow>
      query_sort model_cls record_set
        (groups_before @ (pairs_before @ (field, ordering') # pairs_after) # groups_after)
      = Inl (NotImplementedError ordering'))"
proof (intro conjI impI)
  show "order_func ordering' = Inr Asc" if "upper ordering' = ''ASC''"
    using that by (simp add: order_func_def)
  show "order_func ordering' = Inr Desc" if "upper ordering' = ''DESC''"
    using that by (simp add: order_func_def)
next
  assume bad: "upper ordering' \<noteq> ''ASC'' \<and> upper ordering' \<noteq> ''DESC''"
    and gb: "query_sort model_cls record_set groups_before = Inr r1"
    and pb: "sort_pairs model_cls record_set pairs_before = Inr r2"
  from bad have "order_func ordering' = Inl (NotImplementedError ordering')"
    by (simp add: order_func_invalid)
  then have "sort_pairs model_cls record_set (pairs_before @ (field, ordering') # pairs_after)
      = Inl (NotImplementedError ordering')"
    using pb by (simp add: sort_pairs_append)
  then show "query_sort model_cls record_set
        (groups_before @ (pairs_before @ (field, ordering') # pairs_after) # groups_after)
      = Inl (NotImplementedError ordering')"
    using gb by (simp add: query_sort_append)
qed

theorem query_sort_ordering_token_witness:
  "upper ''asc'' = ''ASC'' \<and> order_func ''asc'' = Inr Asc
   \<and> upper ''Desc'' = ''DESC'' \<and> order_func ''Desc'' = Inr Desc
   \<and> upper ''UP'' \<noteq> ''ASC'' \<and> upper ''UP'' \<noteq> ''DESC''
   \<and> query_sort [''age'', ''name''] (Some demo_query) [[(''age'', ''ASC'')]]
     = Inr (Some demo_query)
   \<and> sort_pairs [''age'', ''name''] (Some demo_query) [(''name'', ''desc'')]
     = Inr (Some demo_query)
   \<and> query_sort [''age'', ''name''] (Some demo_query)
       ([[(''age'', ''ASC'')]]
        @ ([(''name'', ''desc'')] @ (''missing'', ''UP'') # [(''age'', ''asc'')])
        # [[(''name'', ''ASC'')]])
     = Inl (NotImplementedError ''UP'')"
proof -
  have a: "upper ''asc'' = ''ASC''"
    by (rule upper_asc)
  have d: "upper ''Desc'' = ''DESC''"
    by (rule upper_Desc)
  have u: "upper ''UP'' \<noteq> ''ASC'' \<and> upper ''UP'' \<noteq> ''DESC''"
    by (simp add: upper_UP)
  have g: "query_sort [''age'', ''name''] (Some demo_query) [[(''age'', ''ASC'')]]
           = Inr (Some demo_query)"
    by (simp add: order_func_def upper_ASC builder_defs)
  have p: "sort_pairs [''age'', ''name''] (Some demo_query) [(''name'', ''desc'')]
           = Inr (Some demo_query)"
    by (simp add: order_func_def upper_desc builder_defs)
  from query_sort_ordering_token [of "''asc''"] a
  have 1: "order_func ''asc'' = Inr Asc"
    by blast
  from query_sort_ordering_token [of "''Desc''"] d
  have 2: "order_func ''Desc'' = Inr Desc"
    by blast
  from query_sort_ordering_token [of "''UP''" "[''age'', ''name'']" "Some demo_query"
      "[[(''age'', ''ASC'')]]" "Some demo_query" "[(''name'', ''desc'')]" "Some demo_query"
      "''missing''" "[(''age'', ''asc'')]" "[[(''name'', ''ASC'')]]"] u g p
  have 3: "query_sort [''age'', ''name''] (Some demo_query)
       ([[(''age'', ''ASC'')]]
        @ ([(''name'', ''desc'')] @ (''missing'', ''UP'') # [(''age'', ''asc'')])
        # [[(''name'', ''ASC'')]])
     = Inl (NotImplementedError ''UP'')"
    by blast
  from a d u g p 1 2 3 show ?thesis
    by blast
qed

subsection \<open>Pagination\<close>

text \<open>
  Claim C7: the pagination operation applies an offset bound exactly when the directive's
  offset is a strictly positive integer and a limit bound exactly when its limit is
  strictly positive; a zero or missing value leaves that dimension unbounded, and when
  both apply the offset comes before the limit. On a query object the operation returns
  the object with these calls added to the ones it already carries, in this order.
\<close>

theorem query_limit_bounds:
  "query_limit (Some q) (Some args) =
     Inr (Some (q\<lparr>q_ops := q_ops q
        @ (case offset_arg args of
             None \<Rightarrow> []
           | Some n \<Rightarrow> if 0 < n then [Offset n] else [])
        @ (case limit_arg args of
             None \<Rightarrow> []
           | Some n \<Rightarrow> if 0 < n then [Limit n] else [])\<rparr>))"
  by (simp add: query_limit_def or_empty_def get0_def method_of_def offset_q_def limit_q_def
      split: option.splits)

theorem query_limit_bounds_witness:
  "query_limit (Some demo_query)
     (Some \<lparr>offset_arg = Some 2, limit_arg = Some 3, sort_arg = None\<rparr>)
   = Inr (Some (demo_query\<lparr>q_ops := [Offset 2, Limit 3]\<rparr>))
   \<and> query_limit (Some demo_query)
     (Some \<lparr>offset_arg = Some 0, limit_arg = None, sort_arg = None\<rparr>)
   = Inr (Some demo_query)"
  using query_limit_bounds [of demo_query
      "\<lparr>offset_arg = Some 2, limit_arg = Some 3, sort_arg = None\<rparr>"]
    query_limit_bounds [of demo_query
      "\<lparr>offset_arg = Some 0, limit_arg = None, sort_arg = None\<rparr>"]
  by (simp add: demo_query_def session_query_def)

subsection \<open>Counting\<close>

text \<open>
  Claim C8: \<^verbatim>\<open>count\<close> returns a mapping with the key \<^verbatim>\<open>count\<close> whose value is the number
  of records that match the filters, and zero when none matches. \<^verbatim>\<open>count\<close> runs the count
  step on whatever \<^verbatim>\<open>query\<close> built. At \<^verbatim>\<open>[{"age": {"$gt": 1, "$lt": 5}}]\<close> that is the
  query with \<^verbatim>\<open>age > 1\<close> alone, so records with an age of 5 or more are counted too. At
  \<^verbatim>\<open>[{}]\<close>, a clause with no field, \<^verbatim>\<open>query\<close> returns \<^verbatim>\<open>None\<close> and the result is a count
  of zero whatever the table holds.
\<close>

theorem count_ignores_second_pair:
  "count parse_date run_count session_obj [''age'']
     (Some [[(''age'', [(''$gt'', VInt 1), (''$lt'', VInt 5)])]])
   = (case run_count (filter_q (session_query session_obj [''age'']) (Gt ''age'' (VInt 1))) of
        Inl e \<Rightarrow> Inl e
      | Inr n \<Rightarrow> Inr [(''count'', n)])
   \<and> count parse_date run_count session_obj [''age''] (Some [[]]) = Inr [(''count'', 0)]"
  by (simp add: count_def query_defs convert_defs builder_defs)

subsection \<open>Normalisation\<close>

text \<open>
  Claim C9: normalisation maps a date-tagged string to the date parsed from it, a
  date-tagged sequence of strings to the parsed dates in the same order, and returns every
  untagged value unchanged. The source takes every dictionary for a tagged value and reads
  its \<^verbatim>\<open>$date\<close> key without a test. At the untagged value \<^verbatim>\<open>{"foo": 1}\<close> it raises
  \<^verbatim>\<open>KeyError\<close> where the claim, and the function's docstring, have the value returned as
  it is.
\<close>

theorem untagged_dict_raises:
  "convert_if_date parse_date (VDict [(''foo'', VInt 1)]) = Inl KeyError
   \<and> convert_if_date parse_date (VDict [(''foo'', VInt 1)]) \<noteq> Inr (VDict [(''foo'', VInt 1)])"
  by (simp add: convert_defs)

subsection \<open>Absent arguments\<close>

text \<open>
  Claim C10: \<^verbatim>\<open>query\<close> with absent (\<^verbatim>\<open>None\<close>) filter clauses and pagination directive
  returns what it returns for an empty clause list and an empty directive, and
  \<^verbatim>\<open>query_limit\<close> with an absent directive returns the accumulator it was given.
\<close>

theorem absent_arguments:
  "query parse_date session_obj model_cls None None =
     query parse_date session_obj model_cls (Some []) (Some empty_dict)
   \<and> query_limit record_set None = Inr record_set"
  by (simp add: query_defs)

subsection \<open>What the functions do\<close>

text \<open>
  Normalisation, case by case: a value that is not a dictionary is returned as it is; a
  dictionary whose \<^verbatim>\<open>$date\<close> entry is not a list becomes the date parsed from that entry;
  a dictionary whose \<^verbatim>\<open>$date\<close> entry is a list becomes the list of the dates parsed from
  its elements, in the same order; a dictionary without the key raises \<^verbatim>\<open>KeyError\<close>.
\<close>

theorem convert_if_date_cases:
  "(\<not> dict_like v \<longrightarrow> convert_if_date parse_date v = Inr v) \<and>
   (map_of items ''$date'' = Some x \<longrightarrow> \<not> list_like x \<longrightarrow> parse_date x = Inr d \<longrightarrow>
      convert_if_date parse_date (VDict items) = Inr (VDate d)) \<and>
   (map_of items ''$date'' = Some (VList xs) \<longrightarrow>
      list_all2 (\<lambda>x d. parse_date x = Inr d) xs ds \<longrightarrow>
      convert_if_date parse_date (VDict items) = Inr (VList (map VDate ds))) \<and>
   (map_of items ''$date'' = None \<longrightarrow> convert_if_date parse_date (VDict items) = Inl KeyError)"
proof (intro conjI impI)
  show "convert_if_date parse_date v = Inr v" if "\<not> dict_like v"
    using that by (rule convert_if_date_plain)
  show "convert_if_date parse_date (VDict items) = Inr (VDate d)"
    if "map_of items ''$date'' = Some x" "\<not> list_like x" "parse_date x = Inr d"
    using that by (simp add: convert_defs)
  show "convert_if_date parse_date (VDict items) = Inr (VList (map VDate ds))"
    if "map_of items ''$date'' = Some (VList xs)"
      "list_all2 (\<lambda>x d. parse_date x = Inr d) xs ds"
    using that parse_each_all [of parse_date xs ds] by (simp add: convert_defs)
  show "convert_if_date parse_date (VDict items) = Inl KeyError"
    if "map_of items ''$date'' = None"
    using that by (simp add: convert_defs)
qed

theorem convert_if_date_cases_witness:
  "\<not> dict_like (VInt 7 :: nat pyval)
   \<and> convert_if_date demo_parser (VInt 7) = Inr (VInt 7)
   \<and> map_of [(''$date'', VStr ''2023-01-01'' :: nat pyval)] ''$date'' = Some (VStr ''2023-01-01'')
   \<and> \<not> list_like (VStr ''2023-01-01'' :: nat pyval)
   \<and> demo_parser (VStr ''2023-01-01'') = Inr 10
   \<and> convert_if_date demo_parser (VDict [(''$date'', VStr ''2023-01-01'')]) = Inr (VDate 10)
   \<and> map_of [(''$date'', VList [VStr ''2023-01-01'', VStr ''2023-2-1''] :: nat pyval)] ''$date''
       = Some (VList [VStr ''2023-01-01'', VStr ''2023-2-1''])
   \<and> list_all2 (\<lambda>x d. demo_parser x = Inr d) [VStr ''2023-01-01'', VStr ''2023-2-1''] [10, 8]
   \<and> convert_if_date demo_parser
        (VDict [(''$date'', VList [VStr ''2023-01-01'', VStr ''2023-2-1''])])
       = Inr (VList [VDate 10, VDate 8])
   \<and> map_of [(''foo'', VInt 1 :: nat pyval)] ''$date'' = None
   \<and> convert_if_date demo_parser (VDict [(''foo'', VInt 1)]) = Inl KeyError"
proof -
  have a: "\<not> dict_like (VInt 7 :: nat pyval)"
    by (simp add: dict_like_def)
  have b: "map_of [(''$date'', VStr ''2023-01-01'' :: nat pyval)] ''$date''
           = Some (VStr ''2023-01-01'')"
    by simp
  have c: "\<not> list_like (VStr ''2023-01-01'' :: nat pyval)"
    by (simp add: list_like_def)
  have d: "demo_parser (VStr ''2023-01-01'') = Inr 10"
    by (simp add: demo_parser_def)
  have e: "map_of [(''$date'', VList [VStr ''2023-01-01'', VStr ''2023-2-1''] :: nat pyval)]
             ''$date'' = Some (VList [VStr ''2023-01-01'', VStr ''2023-2-1''])"
    by simp
  have f: "list_all2 (\<lambda>x d. demo_parser x = Inr d)
             [VStr ''2023-01-01'', VStr ''2023-2-1''] [10, 8]"
    by (simp add: demo_parser_def)
  have g: "map_of [(''foo'', VInt 1 :: nat pyval)] ''$date'' = None"
    by simp
  from convert_if_date_cases [where v = "VInt 7" and parse_date = demo_parser] a
  have 1: "convert_if_date demo_parser (VInt 7) = Inr (VInt 7)"
    by blast
  from convert_if_date_cases [where items = "[(''$date'', VStr ''2023-01-01'')]"
      and x = "VStr ''2023-01-01''" and parse_date = demo_parser and d = 10] b c d
  have 2: "convert_if_date demo_parser (VDict [(''$date'', VStr ''2023-01-01'')])
           = Inr (VDate 10)"
    by blast
  from convert_if_date_cases
      [where items = "[(''$date'', VList [VStr ''2023-01-01'', VStr ''2023-2-1''])]"
      and parse_date = demo_parser and xs = "[VStr ''2023-01-01'', VStr ''2023-2-1'']"
      and ds = "[10, 8]"] e f
  have 3: "convert_if_date demo_parser
        (VDict [(''$date'', VList [VStr ''2023-01-01'', VStr ''2023-2-1''])])
       = Inr (VList [VDate 10, VDate 8])"
    by simp
  from convert_if_date_cases [where items = "[(''foo'', VInt 1)]"
      and parse_date = demo_parser] g
  have 4: "convert_if_date demo_parser (VDict [(''foo'', VInt 1)]) = Inl KeyError"
    by blast
  from a b c d e f g 1 2 3 4 show ?thesis
    by blast
qed

text \<open>
  Whenever \<^verbatim>\<open>_query_sort\<close> returns, it returns the record set it was given: no sort
  directive reaches the accumulator.
\<close>

theorem query_sort_returns_input:
  "query_sort model_cls record_set sort_params = Inr r \<longrightarrow> r = record_set"
  using query_sort_unchanged by blast

theorem query_sort_returns_input_witness:
  "query_sort [''age'', ''name''] (Some demo_query)
     [[(''age'', ''asc''), (''name'', ''DESC'')], [(''age'', ''Desc'')]] = Inr (Some demo_query)
   \<and> Some demo_query = Some demo_query"
proof -
  have r: "query_sort [''age'', ''name''] (Some demo_query)
     [[(''age'', ''asc''), (''name'', ''DESC'')], [(''age'', ''Desc'')]] = Inr (Some demo_query)"
    by (simp add: order_func_def upper_asc upper_DESC upper_Desc builder_defs)
  from query_sort_returns_input [where model_cls = "[''age'', ''name'']"
      and record_set = "Some demo_query" and r = "Some demo_query"
      and sort_params = "[[(''age'', ''asc''), (''name'', ''DESC'')], [(''age'', ''Desc'')]]"] r
  show ?thesis
    by blast
qed

text \<open>
  Whenever \<^verbatim>\<open>_apply_query_param\<close> returns on a query object, it returns \<^verbatim>\<open>None\<close> or that
  object with one filter call added: a clause contributes at most one predicate, however
  many fields and operators it has.
\<close>

theorem apply_query_param_one_filter:
  "apply_query_param parse_date model_cls (Some q) params = Inr r \<longrightarrow>
   r = None \<or> (\<exists>c. r = Some (filter_q q c))"
  by (auto simp: apply_query_param_def split: sum.splits flow.splits dest: apply_fields_shape)

theorem apply_query_param_one_filter_witness:
  "apply_query_param demo_parser [''age'', ''name''] (Some demo_query)
     [(''age'', [(''$gt'', VInt 1), (''$lt'', VInt 5)]), (''name'', [(''$ne'', VStr ''x'')])]
   = Inr (Some (filter_q demo_query (Gt ''age'' (VInt 1))))
   \<and> (Some (filter_q demo_query (Gt ''age'' (VInt 1))) = None
      \<or> (\<exists>c. Some (filter_q demo_query (Gt ''age'' (VInt 1))) = Some (filter_q demo_query c)))"
proof -
  have r: "apply_query_param demo_parser [''age'', ''name''] (Some demo_query)
     [(''age'', [(''$gt'', VInt 1), (''$lt'', VInt 5)]), (''name'', [(''$ne'', VStr ''x'')])]
   = Inr (Some (filter_q demo_query (Gt ''age'' (VInt 1))))"
    by (simp add: apply_query_param_def convert_defs builder_defs)
  from apply_query_param_one_filter [where parse_date = demo_parser
      and model_cls = "[''age'', ''name'']" and q = demo_query
      and r = "Some (filter_q demo_query (Gt ''age'' (VInt 1)))"
      and params = "[(''age'', [(''$gt'', VInt 1), (''$lt'', VInt 5)]),
                     (''name'', [(''$ne'', VStr ''x'')])]"] r
  show ?thesis
    by blast
qed

text \<open>
  The \<^verbatim>\<open>$eq\<close> branch, for the pair the loops reach: when the fields before the pair and
  the operators before it under its own field are passed over without a return, a null
  value attaches an explicit is-null test on the field, and a value that is not null
  attaches ordinary equality with the normalised value. The accumulator is a query object
  and the field is a column of the model.
\<close>

theorem eq_null_is_null_test:
  assumes "field \<in> set model_cls"
    and "apply_fields parse_date model_cls (Some q) fields_before = Inr Fallthrough"
    and "apply_operators parse_date model_cls (Some q) field operators_before = Inr Fallthrough"
  shows "apply_query_param parse_date model_cls (Some q)
           (fields_before @ (field, operators_before @ (''$eq'', VNone) # operators_after)
              # fields_after)
         = Inr (Some (filter_q q (IsNull field)))
       \<and> (raw \<noteq> VNone \<longrightarrow> convert_if_date parse_date raw = Inr v \<longrightarrow>
           apply_query_param parse_date model_cls (Some q)
             (fields_before @ (field, operators_before @ (''$eq'', raw) # operators_after)
                # fields_after)
           = Inr (Some (filter_q q (Eq field v))))"
proof (intro conjI impI)
  have "apply_operators parse_date model_cls (Some q) field
          (operators_before @ (''$eq'', VNone) # operators_after)
        = Inr (Return (Some (filter_q q (IsNull field))))"
    using assms(3) apply_operators_eq [OF assms(1) convert_if_date_None]
    by (simp add: apply_operators_append)
  then show "apply_query_param parse_date model_cls (Some q)
           (fields_before @ (field, operators_before @ (''$eq'', VNone) # operators_after)
              # fields_after)
         = Inr (Some (filter_q q (IsNull field)))"
    using assms(2) by (simp add: apply_query_param_def apply_fields_append)
next
  assume raw: "raw \<noteq> VNone" and conv: "convert_if_date parse_date raw = Inr v"
  have "v \<noteq> VNone"
    using convert_if_date_not_None [OF conv raw] .
  then have "apply_operators parse_date model_cls (Some q) field
          (operators_before @ (''$eq'', raw) # operators_after)
        = Inr (Return (Some (filter_q q (Eq field v))))"
    using assms(3) apply_operators_eq [OF assms(1) conv]
    by (simp add: apply_operators_append)
  then show "apply_query_param parse_date model_cls (Some q)
             (fields_before @ (field, operators_before @ (''$eq'', raw) # operators_after)
                # fields_after)
           = Inr (Some (filter_q q (Eq field v)))"
    using assms(2) by (simp add: apply_query_param_def apply_fields_append)
qed

theorem eq_null_is_null_test_witness:
  "''age'' \<in> set [''age'', ''name'']
   \<and> apply_fields demo_parser [''age'', ''name''] (Some demo_query)
       [(''name'', [(''$regex'', VStr ''a'')])] = Inr Fallthrough
   \<and> apply_operators demo_parser [''age'', ''name''] (Some demo_query) ''age''
       [(''$like'', VInt 1)] = Inr Fallthrough
   \<and> apply_query_param demo_parser [''age'', ''name''] (Some demo_query)
       ([(''name'', [(''$regex'', VStr ''a'')])]
        @ (''age'', [(''$like'', VInt 1)] @ (''$eq'', VNone) # [(''$gt'', VInt 3)]) # [])
     = Inr (Some (filter_q demo_query (IsNull ''age'')))
   \<and> VDict [(''$date'', VStr ''2023-01-01'')] \<noteq> (VNone :: nat pyval)
   \<and> convert_if_date demo_parser (VDict [(''$date'', VStr ''2023-01-01'')]) = Inr (VDate 10)
   \<and> apply_query_param demo_parser [''age'', ''name''] (Some demo_query)
       ([(''name'', [(''$regex'', VStr ''a'')])]
        @ (''age'', [(''$like'', VInt 1)]
             @ (''$eq'', VDict [(''$date'', VStr ''2023-01-01'')]) # [(''$gt'', VInt 3)]) # [])
     = Inr (Some (filter_q demo_query (Eq ''age'' (VDate 10))))"
proof -
  have m: "''age'' \<in> set [''age'', ''name'']"
    by simp
  have f: "apply_fields demo_parser [''age'', ''name''] (Some demo_query)
       [(''name'', [(''$regex'', VStr ''a'')])] = Inr Fallthrough"
    by (simp add: convert_defs)
  have b: "apply_operators demo_parser [''age'', ''name''] (Some demo_query) ''age''
       [(''$like'', VInt 1)] = Inr Fallthrough"
    by (simp add: convert_defs)
  have n: "VDict [(''$date'', VStr ''2023-01-01'')] \<noteq> (VNone :: nat pyval)"
    by simp
  have c: "convert_if_date demo_parser (VDict [(''$date'', VStr ''2023-01-01'')]) = Inr (VDate 10)"
    by (simp add: convert_defs demo_parser_def)
  note t = eq_null_is_null_test [OF m f b, of "[(''$gt'', VInt 3)]" "[]"
      "VDict [(''$date'', VStr ''2023-01-01'')]" "VDate 10"]
  from t n c m f b show ?thesis
    by blast
qed

end
